theory Spec2Isabelle
  imports Complex_Main
begin

section \<open>Pong: vector physics of paddles and ball\<close>

text \<open>
  A shallow embedding of the physics core of \<^verbatim>\<open>main.py\<close>: the classes
  \<^verbatim>\<open>Vector2D\<close>, \<^verbatim>\<open>Paddle\<close> and \<^verbatim>\<open>Ball\<close> and the method
  \<^verbatim>\<open>Game.update\<close>.

  Python's \<^verbatim>\<open>float\<close> is modelled by \<^typ>\<open>real\<close>: the arithmetic operations are
  exact and \<^verbatim>\<open>math.sqrt\<close>, \<^verbatim>\<open>math.cos\<close> and \<^verbatim>\<open>math.sin\<close> are the
  mathematical functions. The rounding of doubles is not modelled anywhere; their
  bounded range (overflow, underflow to zero) is modelled for \<^verbatim>\<open>magnitude\<close> and
  \<^verbatim>\<open>normalize\<close> in a section of its own. Methods that mutate \<^verbatim>\<open>self\<close> take
  the object and return the updated object next to the method's return value. A Python
  exception is a value \<open>Inl e\<close>. The draws of the module \<^verbatim>\<open>random\<close> are
  arguments of the function that consumes them.
\<close>

subsection \<open>Constants\<close>

definition WINDOW_WIDTH :: real where
  "WINDOW_WIDTH = 1080"

definition WINDOW_HEIGHT :: real where
  "WINDOW_HEIGHT = 720"

text \<open>\<^verbatim>\<open>MAX_BOUNCE_ANGLE = math.radians(60)\<close>, that is \<open>60 * pi / 180\<close>.\<close>

definition MAX_BOUNCE_ANGLE :: real where
  "MAX_BOUNCE_ANGLE = 60 * pi / 180"

datatype error = ZeroDivisionError | OverflowError

subsection \<open>Vector2D\<close>

text \<open>The attributes \<^verbatim>\<open>x\<close> and \<^verbatim>\<open>y\<close> are the fields \<open>vec_x\<close> and \<open>vec_y\<close>.\<close>

record Vector2D =
  vec_x :: real
  vec_y :: real

definition mk_vec :: "real \<Rightarrow> real \<Rightarrow> Vector2D" where
  "mk_vec a b = \<lparr>vec_x = a, vec_y = b\<rparr>"

text \<open>\<^verbatim>\<open>__add__\<close>, \<^verbatim>\<open>__sub__\<close>, \<^verbatim>\<open>__mul__\<close> and \<^verbatim>\<open>__truediv__\<close>.\<close>

definition vadd :: "Vector2D \<Rightarrow> Vector2D \<Rightarrow> Vector2D" where
  "vadd u v = mk_vec (vec_x u + vec_x v) (vec_y u + vec_y v)"

definition vsub :: "Vector2D \<Rightarrow> Vector2D \<Rightarrow> Vector2D" where
  "vsub u v = mk_vec (vec_x u - vec_x v) (vec_y u - vec_y v)"

definition vmul :: "Vector2D \<Rightarrow> real \<Rightarrow> Vector2D" where
  "vmul u k = mk_vec (vec_x u * k) (vec_y u * k)"


definition dot :: "Vector2D \<Rightarrow> Vector2D \<Rightarrow> real" where
  "dot u v = vec_x u * vec_x v + vec_y u * vec_y v"

definition magnitude :: "Vector2D \<Rightarrow> real" where
  "magnitude u = sqrt ((vec_x u)\<^sup>2 + (vec_y u)\<^sup>2)"

text \<open>
  \<^verbatim>\<open>magnitude\<close> above and \<^verbatim>\<open>normalize\<close> here are the methods in exact
  arithmetic; \<open>magnitude_double\<close> and \<open>normalize_double\<close> below add the range of
  doubles. The guard \<^verbatim>\<open>mag == 0\<close> comes before the two divisions.
\<close>

definition normalize_vec :: "Vector2D \<Rightarrow> Vector2D" where
  "normalize_vec u =
     (let mag = magnitude u
      in if mag = 0 then mk_vec 0 0
         else mk_vec (vec_x u / mag) (vec_y u / mag))"

definition set_magnitude :: "Vector2D \<Rightarrow> real \<Rightarrow> Vector2D" where
  "set_magnitude u new_mag = (let normalized = normalize_vec u in vmul normalized new_mag)"

definition reflect :: "Vector2D \<Rightarrow> Vector2D \<Rightarrow> Vector2D" where
  "reflect u normal =
     (let normal_normalized = normalize_vec normal;
          dot_product = dot u normal_normalized;
          reflection = vsub u (vmul normal_normalized (2 * dot_product))
      in reflection)"

subsection \<open>Vector2D within the range of doubles\<close>







subsection \<open>Paddle\<close>

text \<open>
  The attributes \<^verbatim>\<open>position\<close> and \<^verbatim>\<open>velocity\<close> of a paddle are the fields
  \<open>paddle_position\<close> and \<open>paddle_velocity\<close>; the ball keeps the plain names.
\<close>

record Paddle =
  paddle_position :: Vector2D
  width :: real
  height :: real
  paddle_velocity :: Vector2D
  speed :: real

text \<open>\<^verbatim>\<open>Paddle(x, y, width=15, height=100)\<close>.\<close>

definition new_paddle :: "real \<Rightarrow> real \<Rightarrow> real \<Rightarrow> real \<Rightarrow> Paddle" where
  "new_paddle a b w h =
     \<lparr>paddle_position = mk_vec a b, width = w, height = h,
      paddle_velocity = mk_vec 0 0, speed = 400\<rparr>"

definition move :: "Paddle \<Rightarrow> real \<Rightarrow> real \<Rightarrow> real \<Rightarrow> Paddle" where
  "move p direction dt speed_multiplier =
     (let vel = mk_vec 0 (direction * speed p * speed_multiplier);
          pos = vadd (paddle_position p) (vmul vel dt);
          pos' = (if vec_y pos < 0 then pos\<lparr>vec_y := 0\<rparr>
                  else if vec_y pos + height p > WINDOW_HEIGHT
                       then pos\<lparr>vec_y := WINDOW_HEIGHT - height p\<rparr>
                  else pos)
      in p\<lparr>paddle_velocity := vel, paddle_position := pos'\<rparr>)"

subsection \<open>Ball\<close>

record Ball =
  position :: Vector2D
  velocity :: Vector2D
  radius :: real
  base_speed :: real
  speed_multiplier :: real
  acceleration_enabled :: bool
  acceleration_factor :: real

text \<open>\<^verbatim>\<open>Ball(x, y, radius=8)\<close>.\<close>

definition new_ball :: "real \<Rightarrow> real \<Rightarrow> real \<Rightarrow> Ball" where
  "new_ball a b r =
     \<lparr>position = mk_vec a b, velocity = mk_vec 0 0, radius = r, base_speed = 400,
      speed_multiplier = 1, acceleration_enabled = True, acceleration_factor = 105 / 100\<rparr>"

text \<open>
  \<^verbatim>\<open>reflect_from_paddle\<close>. The division \<^verbatim>\<open>offset / (paddle.height / 2)\<close> raises
  \<^verbatim>\<open>ZeroDivisionError\<close> when the divisor is zero; nothing has been assigned by then.
\<close>

definition reflect_from_paddle :: "Ball \<Rightarrow> Paddle \<Rightarrow> error + Ball" where
  "reflect_from_paddle b paddle =
     (let paddle_center_y = vec_y (paddle_position paddle) + height paddle / 2;
          offset = vec_y (position b) - paddle_center_y
      in if height paddle / 2 = 0 then Inl ZeroDivisionError
         else
           let normalized_offset = max (- 1) (min 1 (offset / (height paddle / 2)));
               bounce_angle = normalized_offset * MAX_BOUNCE_ANGLE;
               direction = (if vec_x (velocity b) < 0 then 1 else - 1);
               speed0 = magnitude (velocity b);
               speed1 = (if acceleration_enabled b then speed0 * acceleration_factor b
                         else speed0)
           in Inr (b\<lparr>velocity := mk_vec (cos bounce_angle * speed1 * direction)
                                        (sin bounce_angle * speed1)\<rparr>))"

text \<open>
  \<^verbatim>\<open>reset\<close>: \<open>angle\<close> is the value of \<^verbatim>\<open>random.uniform(-math.pi/4, math.pi/4)\<close>
  and \<open>direction\<close> the value of \<^verbatim>\<open>random.choice([-1, 1])\<close>.
\<close>

definition reset_ball :: "Ball \<Rightarrow> real \<Rightarrow> real \<Rightarrow> real \<Rightarrow> real \<Rightarrow> Ball" where
  "reset_ball b a c angle direction =
     b\<lparr>position := mk_vec a c,
       velocity := mk_vec (cos angle * direction * base_speed b) (sin angle * base_speed b)\<rparr>"

definition update_ball :: "Ball \<Rightarrow> real \<Rightarrow> real \<Rightarrow> Ball" where
  "update_ball b dt sm =
     b\<lparr>speed_multiplier := sm,
       position := vadd (position b) (vmul (vmul (velocity b) dt) sm)\<rparr>"

text \<open>
  \<^verbatim>\<open>check_paddle_collision\<close> returns the ball and the method's Boolean. The push
  reads the velocity that \<^verbatim>\<open>reflect_from_paddle\<close> has just assigned.
\<close>

definition check_paddle_collision :: "Ball \<Rightarrow> Paddle \<Rightarrow> error + (Ball \<times> bool)" where
  "check_paddle_collision b paddle =
     (let closest_x = max (vec_x (paddle_position paddle))
                          (min (vec_x (position b)) (vec_x (paddle_position paddle) + width paddle));
          closest_y = max (vec_y (paddle_position paddle))
                          (min (vec_y (position b)) (vec_y (paddle_position paddle) + height paddle));
          closest_point = mk_vec closest_x closest_y;
          distance_vec = vsub (position b) closest_point;
          distance = magnitude distance_vec
      in if distance \<le> radius b then
           (case reflect_from_paddle b paddle of
              Inl e \<Rightarrow> Inl e
            | Inr b1 \<Rightarrow>
                let overlap = radius b1 - distance
                in if overlap > 0 then
                     let push_x = (if vec_x (velocity b1) > 0 then 1 else - 1)
                     in Inr (b1\<lparr>position := (position b1)\<lparr>vec_x := vec_x (position b1) + push_x * overlap\<rparr>\<rparr>, True)
                   else Inr (b1, True))
         else Inr (b, False))"

definition check_wall_collision :: "Ball \<Rightarrow> Ball \<times> bool" where
  "check_wall_collision b =
     (if vec_y (position b) - radius b \<le> 0 then
        let normal = mk_vec 0 1
        in (b\<lparr>velocity := reflect (velocity b) normal,
              position := (position b)\<lparr>vec_y := radius b\<rparr>\<rparr>, True)
      else if vec_y (position b) + radius b \<ge> WINDOW_HEIGHT then
        let normal = mk_vec 0 (- 1)
        in (b\<lparr>velocity := reflect (velocity b) normal,
              position := (position b)\<lparr>vec_y := WINDOW_HEIGHT - radius b\<rparr>\<rparr>, True)
      else (b, False))"

text \<open>
  \<^verbatim>\<open>check_score\<close> returns \<^verbatim>\<open>'right'\<close>, \<^verbatim>\<open>'left'\<close> or \<^verbatim>\<open>None\<close>. Like the
  other methods of the ball its model returns the ball next to the value.
\<close>

definition check_score :: "Ball \<Rightarrow> Ball \<times> string option" where
  "check_score b =
     (if vec_x (position b) - radius b \<le> 0 then (b, Some ''right'')
      else if vec_x (position b) + radius b \<ge> WINDOW_WIDTH then (b, Some ''left'')
      else (b, None))"

subsection \<open>A rally as a sequence of calls on the ball\<close>

text \<open>
  During play the ball is touched only by \<^verbatim>\<open>Ball.update\<close>,
  \<^verbatim>\<open>check_paddle_collision\<close> and \<^verbatim>\<open>check_wall_collision\<close> until a score resets
  it. \<open>play\<close> runs such a sequence of calls and counts the paddle checks that
  returned \<^verbatim>\<open>True\<close>; an exception ends the run.
\<close>

datatype ball_call = Advance real real | PaddleCheck Paddle | WallCheck

fun play :: "Ball \<Rightarrow> ball_call list \<Rightarrow> error + (Ball \<times> nat)" where
  "play b [] = Inr (b, 0)"
| "play b (Advance dt sm # cs) = play (update_ball b dt sm) cs"
| "play b (WallCheck # cs) = play (fst (check_wall_collision b)) cs"
| "play b (PaddleCheck p # cs) =
     (case check_paddle_collision b p of
        Inl e \<Rightarrow> Inl e
      | Inr (b1, hit) \<Rightarrow>
          (case play b1 cs of
             Inl e \<Rightarrow> Inl e
           | Inr (b2, n) \<Rightarrow> Inr (b2, if hit then Suc n else n)))"

fun paddle_heights_nonzero :: "ball_call list \<Rightarrow> bool" where
  "paddle_heights_nonzero [] = True"
| "paddle_heights_nonzero (PaddleCheck p # cs) = (height p \<noteq> 0 \<and> paddle_heights_nonzero cs)"
| "paddle_heights_nonzero (_ # cs) = paddle_heights_nonzero cs"

subsection \<open>Game\<close>

text \<open>
  The attributes of \<^verbatim>\<open>Game\<close> that \<^verbatim>\<open>update\<close> and \<^verbatim>\<open>reset_round\<close> read or
  write. \<open>game_speed\<close>, \<open>paddle_speed\<close> and \<open>ball_speed\<close> are the \<^verbatim>\<open>value\<close> of the
  three sliders, \<open>acceleration_toggle\<close> is the \<^verbatim>\<open>state\<close> of the toggle. Of
  \<^verbatim>\<open>PlayerLog\<close> the list \<^verbatim>\<open>logs\<close> is kept, an entry being the four values that
  \<^verbatim>\<open>add_log\<close> formats into one line; the file it appends to is outside the model.
\<close>

record Game =
  state :: string
  left_paddle :: Paddle
  right_paddle :: Paddle
  ball :: Ball
  left_score :: int
  right_score :: int
  winning_score :: int
  player1_name :: string
  player2_name :: string
  player_log :: "(string \<times> string \<times> int \<times> int) list"
  game_speed :: real
  paddle_speed :: real
  ball_speed :: real
  acceleration_toggle :: bool

definition add_log :: "Game \<Rightarrow> Game" where
  "add_log g =
     g\<lparr>player_log := player_log g @ [(player1_name g, player2_name g, left_score g, right_score g)]\<rparr>"

text \<open>
  \<^verbatim>\<open>reset_round\<close>, with \<^verbatim>\<open>WINDOW_HEIGHT//2 - 50 = 310\<close>,
  \<^verbatim>\<open>WINDOW_WIDTH - 65 = 1015\<close> and the board centre \<open>(540, 360)\<close>; \<open>angle\<close> and
  \<open>direction\<close> are the two random draws of \<^verbatim>\<open>Ball.reset\<close>.
\<close>

definition reset_round :: "Game \<Rightarrow> real \<Rightarrow> real \<Rightarrow> Game" where
  "reset_round g angle direction =
     g\<lparr>left_paddle := new_paddle 50 310 15 100,
       right_paddle := new_paddle 1015 310 15 100,
       ball := reset_ball (ball g) 540 360 angle direction\<rparr>"

text \<open>
  \<^verbatim>\<open>Game.update\<close>. The Booleans of the three collision checks are discarded, as in
  the source. An exception leaves \<^verbatim>\<open>update\<close> (and the program) at once.
\<close>

definition update_game :: "Game \<Rightarrow> real \<Rightarrow> real \<Rightarrow> real \<Rightarrow> error + Game" where
  "update_game g dt angle direction =
     (if state g \<noteq> ''playing'' then Inr g
      else
        let effective_dt = dt * game_speed g;
            b0 = (ball g)\<lparr>acceleration_enabled := acceleration_toggle g\<rparr>;
            b1 = update_ball b0 effective_dt (ball_speed g)
        in case check_paddle_collision b1 (left_paddle g) of
             Inl e \<Rightarrow> Inl e
           | Inr (b2, hit_left) \<Rightarrow>
               (case check_paddle_collision b2 (right_paddle g) of
                  Inl e \<Rightarrow> Inl e
                | Inr (b3, hit_right) \<Rightarrow>
                    let (b4, hit_wall) = check_wall_collision b3;
                        (b5, scorer) = check_score b4;
                        g1 = g\<lparr>ball := b5\<rparr>
                    in if scorer = Some ''left'' then
                         let g2 = reset_round (g1\<lparr>left_score := left_score g1 + 1\<rparr>) angle direction
                         in if left_score g2 \<ge> winning_score g2
                            then Inr (add_log (g2\<lparr>state := ''postgame''\<rparr>))
                            else Inr g2
                       else if scorer = Some ''right'' then
                         let g2 = reset_round (g1\<lparr>right_score := right_score g1 + 1\<rparr>) angle direction
                         in if right_score g2 \<ge> winning_score g2
                            then Inr (add_log (g2\<lparr>state := ''postgame''\<rparr>))
                            else Inr g2
                       else Inr g1))"

text \<open>
  A state of play in which the ball stands within its radius of both paddles at once
  (the paddles are 5 apart); \<^verbatim>\<open>Game\<close> itself places the paddles 950 apart.
\<close>

definition crowded_game :: Game where
  "crowded_game =
     \<lparr>state = ''playing'',
      left_paddle = new_paddle 0 310 15 100,
      right_paddle = new_paddle 20 310 15 100,
      ball = (new_ball 17 360 8)\<lparr>velocity := mk_vec 400 0\<rparr>,
      left_score = 0, right_score = 0, winning_score = 5,
      player1_name = ''A'', player2_name = ''B'', player_log = [],
      game_speed = 1, paddle_speed = 1, ball_speed = 1, acceleration_toggle = True\<rparr>"


subsection \<open>The specification's words\<close>

text \<open>
  The quantities that the specification names, written as the specification describes
  them; the theorems below compare them with what the source computes. \<open>clamp\<close> is
  clamping by case distinction (the source nests \<^verbatim>\<open>max\<close> and \<^verbatim>\<open>min\<close>), the
  bounce angle is the clamped normalised offset times 60 degrees (\<open>pi / 3\<close>), the bounce
  speed is the prior speed, multiplied by the acceleration factor when acceleration is
  enabled, and the closest point clamps the ball's \<open>x\<close> and \<open>y\<close> independently into
  the ranges of the paddle's rectangle.
\<close>

definition clamp :: "real \<Rightarrow> real \<Rightarrow> real \<Rightarrow> real" where
  "clamp v lo hi = (if v < lo then lo else if hi < v then hi else v)"

definition bounce_angle :: "Ball \<Rightarrow> Paddle \<Rightarrow> real" where
  "bounce_angle b p =
     clamp ((vec_y (position b) - (vec_y (paddle_position p) + height p / 2)) / (height p / 2))
           (- 1) 1 * (pi / 3)"

definition bounce_speed :: "Ball \<Rightarrow> real" where
  "bounce_speed b =
     (if acceleration_enabled b then magnitude (velocity b) * acceleration_factor b
      else magnitude (velocity b))"

definition closest_point :: "Ball \<Rightarrow> Paddle \<Rightarrow> Vector2D" where
  "closest_point b p =
     mk_vec (clamp (vec_x (position b)) (vec_x (paddle_position p))
                   (vec_x (paddle_position p) + width p))
            (clamp (vec_y (position b)) (vec_y (paddle_position p))
                   (vec_y (paddle_position p) + height p))"

definition paddle_distance :: "Ball \<Rightarrow> Paddle \<Rightarrow> real" where
  "paddle_distance b p = magnitude (vsub (position b) (closest_point b p))"

text \<open>Membership of a point in the paddle's rectangle.\<close>

definition in_rect :: "Vector2D \<Rightarrow> Paddle \<Rightarrow> bool" where
  "in_rect q p \<longleftrightarrow>
     vec_x (paddle_position p) \<le> vec_x q \<and> vec_x q \<le> vec_x (paddle_position p) + width p
     \<and> vec_y (paddle_position p) \<le> vec_y q \<and> vec_y q \<le> vec_y (paddle_position p) + height p"

section \<open>Properties\<close>

subsection \<open>Vectors\<close>

lemma mk_vec_sel [simp]: "vec_x (mk_vec a b) = a" "vec_y (mk_vec a b) = b"
  by (simp_all add: mk_vec_def)

lemma mk_vec_eta [simp]: "mk_vec (vec_x u) (vec_y u) = u"
  by (simp add: mk_vec_def)

lemma mk_vec_eq_iff [simp]: "mk_vec a b = mk_vec c d \<longleftrightarrow> a = c \<and> b = d"
  by (simp add: mk_vec_def)

lemma vec_y_update_mk: "u\<lparr>vec_y := c\<rparr> = mk_vec (vec_x u) c"
  by (simp add: mk_vec_def)

lemma vec_x_update_mk: "u\<lparr>vec_x := c\<rparr> = mk_vec c (vec_y u)"
  by (simp add: mk_vec_def)

lemma magnitude_nonneg: "0 \<le> magnitude u"
  by (simp add: magnitude_def)


lemma magnitude_mk_vec: "magnitude (mk_vec a b) = sqrt (a\<^sup>2 + b\<^sup>2)"
  by (simp add: magnitude_def)











subsection \<open>Clamping and angles\<close>

lemma clamp_max_min: "lo \<le> hi \<Longrightarrow> max lo (min v hi) = clamp v lo hi"
  by (simp add: clamp_def max_def min_def)

lemma clamp_max_min': "lo \<le> hi \<Longrightarrow> max lo (min hi v) = clamp v lo hi"
  by (simp add: clamp_def max_def min_def)

lemma clamp_bounds: "lo \<le> hi \<Longrightarrow> lo \<le> clamp v lo hi \<and> clamp v lo hi \<le> hi"
  by (simp add: clamp_def)

lemma max_bounce_angle: "MAX_BOUNCE_ANGLE = pi / 3"
  by (simp add: MAX_BOUNCE_ANGLE_def)

lemma bounce_angle_bound: "\<bar>bounce_angle b p\<bar> \<le> pi / 3"
proof -
  let ?c = "clamp ((vec_y (position b) - (vec_y (paddle_position p) + height p / 2)) / (height p / 2)) (- 1) 1"
  have "- 1 \<le> ?c \<and> ?c \<le> 1" by (rule clamp_bounds) simp
  then have "\<bar>?c\<bar> \<le> 1" by (simp add: abs_le_iff)
  then have "\<bar>?c\<bar> * (pi / 3) \<le> 1 * (pi / 3)"
    by (intro mult_right_mono) simp_all
  then show ?thesis by (simp add: bounce_angle_def abs_mult)
qed

lemma cos_ge_of_abs_le:
  assumes "\<bar>a\<bar> \<le> c" "c \<le> pi"
  shows "cos c \<le> cos a"
proof -
  have "cos c \<le> cos \<bar>a\<bar>"
    using assms by (intro cos_monotone_0_pi_le) simp_all
  then show ?thesis by simp
qed

lemma abs_sin_le_of_abs_le:
  assumes "\<bar>a\<bar> \<le> c" "c \<le> pi / 2"
  shows "\<bar>sin a\<bar> \<le> sin c"
proof -
  have "sin a \<le> sin c" using assms by (intro sin_monotone_2pi_le) (simp_all add: abs_le_iff)
  moreover have "sin (- a) \<le> sin c" using assms by (intro sin_monotone_2pi_le) (simp_all add: abs_le_iff)
  ultimately show ?thesis by (simp add: abs_le_iff)
qed

lemma slope_60:
  assumes "\<bar>a\<bar> \<le> pi / 3"
  shows "\<bar>sin a\<bar> \<le> sqrt 3 * cos a" and "1 / 2 \<le> cos a"
proof -
  have c: "1 / 2 \<le> cos a"
    using cos_ge_of_abs_le [OF assms] pi_gt_zero by (simp add: cos_60)
  have s: "\<bar>sin a\<bar> \<le> sqrt 3 / 2"
    using abs_sin_le_of_abs_le [OF assms] pi_gt_zero by (simp add: sin_60)
  have "sqrt 3 * (1 / 2) \<le> sqrt 3 * cos a"
    using c by (intro mult_left_mono) simp_all
  then have "sqrt 3 / 2 \<le> sqrt 3 * cos a" by simp
  with s show "\<bar>sin a\<bar> \<le> sqrt 3 * cos a" by linarith
  show "1 / 2 \<le> cos a" by (rule c)
qed

lemma slope_45:
  assumes "\<bar>a\<bar> \<le> pi / 4"
  shows "\<bar>sin a\<bar> \<le> cos a"
proof -
  have c: "sqrt 2 / 2 \<le> cos a"
    using cos_ge_of_abs_le [OF assms] pi_gt_zero by (simp add: cos_45)
  have s: "\<bar>sin a\<bar> \<le> sqrt 2 / 2"
    using abs_sin_le_of_abs_le [OF assms] pi_gt_zero by (simp add: sin_45)
  from c s show ?thesis by simp
qed

lemma magnitude_polar:
  assumes "d = 1 \<or> d = - 1"
  shows "magnitude (mk_vec (cos a * s * d) (sin a * s)) = \<bar>s\<bar>"
proof -
  have d2: "d\<^sup>2 = 1" using assms by auto
  have "(cos a * s * d)\<^sup>2 + (sin a * s)\<^sup>2 = s\<^sup>2 * (cos a)\<^sup>2 + s\<^sup>2 * (sin a)\<^sup>2"
    by (simp add: power_mult_distrib d2 mult.commute)
  also have "\<dots> = s\<^sup>2 * ((cos a)\<^sup>2 + (sin a)\<^sup>2)"
    by (simp only: distrib_left)
  also have "\<dots> = s\<^sup>2" by simp
  finally show ?thesis by (simp add: magnitude_mk_vec)
qed

lemma reflect_from_paddle_eq:
  assumes "height p \<noteq> 0"
  shows "reflect_from_paddle b p =
           Inr (b\<lparr>velocity := mk_vec (cos (bounce_angle b p) * bounce_speed b
                                         * (if vec_x (velocity b) < 0 then 1 else - 1))
                                      (sin (bounce_angle b p) * bounce_speed b)\<rparr>)"
  using assms
  by (simp add: reflect_from_paddle_def Let_def bounce_angle_def bounce_speed_def
      max_bounce_angle clamp_max_min')

subsection \<open>Paddle movement\<close>

text \<open>
  C7. For a paddle whose height is at most the board height, after
  \<^verbatim>\<open>move(direction, dt, speed_multiplier)\<close> the paddle's \<open>position.y\<close> lies in
  \<open>[0, WINDOW_HEIGHT - height]\<close>, for every direction, \<open>dt\<close> and multiplier. The move
  sets the velocity to \<open>(0, direction * speed * speed_multiplier)\<close>, adds
  \<open>velocity * dt\<close> to the position and clamps \<open>position.y\<close>: the new \<open>y\<close> is the
  integrated \<open>y\<close> clamped into the range, \<open>x\<close> is unchanged, and the velocity is not
  reversed at the wall.
\<close>

theorem move_clamped:
  assumes "height p \<le> WINDOW_HEIGHT"
  shows "0 \<le> vec_y (paddle_position (move p direction dt sm))
         \<and> vec_y (paddle_position (move p direction dt sm)) \<le> WINDOW_HEIGHT - height p
         \<and> vec_y (paddle_position (move p direction dt sm))
             = max 0 (min (WINDOW_HEIGHT - height p)
                          (vec_y (paddle_position p) + direction * speed p * sm * dt))
         \<and> vec_x (paddle_position (move p direction dt sm)) = vec_x (paddle_position p)
         \<and> paddle_velocity (move p direction dt sm) = mk_vec 0 (direction * speed p * sm)
         \<and> height (move p direction dt sm) = height p"
  using assms by (auto simp: move_def Let_def vadd_def vmul_def)

theorem move_clamped_witness:
  "height (new_paddle 50 310 15 100) \<le> WINDOW_HEIGHT
   \<and> vec_y (paddle_position (move (new_paddle 50 310 15 100) (- 1) 1 1)) = 0
   \<and> paddle_velocity (move (new_paddle 50 310 15 100) (- 1) 1 1) = mk_vec 0 (- 400)"
proof -
  have h: "height (new_paddle 50 310 15 100) \<le> WINDOW_HEIGHT"
    by (simp add: new_paddle_def WINDOW_HEIGHT_def)
  from move_clamped [OF h, of "- 1" 1 1] h show ?thesis
    by (simp add: new_paddle_def WINDOW_HEIGHT_def)
qed

subsection \<open>Walls and scoring\<close>

lemma reflect_wall_top: "reflect v (mk_vec 0 1) = mk_vec (vec_x v) (- vec_y v)"
  by (simp add: reflect_def normalize_vec_def magnitude_mk_vec dot_def vsub_def vmul_def Let_def)

lemma reflect_wall_bottom: "reflect v (mk_vec 0 (- 1)) = mk_vec (vec_x v) (- vec_y v)"
  by (simp add: reflect_def normalize_vec_def magnitude_mk_vec dot_def vsub_def vmul_def Let_def)

text \<open>
  C3. When \<open>position.y - radius \<le> 0\<close> (top), \<^verbatim>\<open>check_wall_collision\<close> reflects the
  velocity across the normal \<open>(0, 1)\<close>, which negates the vertical component and keeps
  the horizontal one, sets \<open>position.y\<close> to \<open>radius\<close> and returns \<^verbatim>\<open>True\<close>. When
  \<open>position.y + radius \<ge> WINDOW_HEIGHT\<close> (bottom; the source tests it with
  \<^verbatim>\<open>elif\<close>, after the top test has failed) it does the same with the normal
  \<open>(0, -1)\<close> and sets \<open>position.y\<close> to \<open>WINDOW_HEIGHT - radius\<close>. Otherwise the ball
  is unchanged and the result is \<^verbatim>\<open>False\<close>. In particular a ball at \<open>y = radius\<close>
  with velocity \<open>(vx, -vy)\<close>, \<open>vy > 0\<close>, ends with velocity \<open>(vx, vy)\<close> and
  \<open>position.y = radius\<close>.
\<close>

theorem wall_reflection:
  "(vec_y (position b) - radius b \<le> 0 \<longrightarrow>
      check_wall_collision b
        = (b\<lparr>velocity := mk_vec (vec_x (velocity b)) (- vec_y (velocity b)),
              position := mk_vec (vec_x (position b)) (radius b)\<rparr>, True))
   \<and> (\<not> vec_y (position b) - radius b \<le> 0 \<and> vec_y (position b) + radius b \<ge> WINDOW_HEIGHT \<longrightarrow>
      check_wall_collision b
        = (b\<lparr>velocity := mk_vec (vec_x (velocity b)) (- vec_y (velocity b)),
              position := mk_vec (vec_x (position b)) (WINDOW_HEIGHT - radius b)\<rparr>, True))
   \<and> (\<not> vec_y (position b) - radius b \<le> 0 \<and> \<not> vec_y (position b) + radius b \<ge> WINDOW_HEIGHT \<longrightarrow>
      check_wall_collision b = (b, False))
   \<and> (vec_y (position b) = radius b \<and> velocity b = mk_vec vx (- vy) \<and> vy > 0 \<longrightarrow>
      velocity (fst (check_wall_collision b)) = mk_vec vx vy
      \<and> vec_y (position (fst (check_wall_collision b))) = radius b)"
  by (simp add: check_wall_collision_def reflect_wall_top reflect_wall_bottom Let_def
      vec_y_update_mk)

theorem wall_reflection_witness:
  "velocity (fst (check_wall_collision ((new_ball 540 8 8)\<lparr>velocity := mk_vec 3 (- 4)\<rparr>)))
     = mk_vec 3 4
   \<and> vec_y (position (fst (check_wall_collision ((new_ball 540 8 8)\<lparr>velocity := mk_vec 3 (- 4)\<rparr>))))
     = 8
   \<and> check_wall_collision ((new_ball 540 715 8)\<lparr>velocity := mk_vec 3 4\<rparr>)
     = ((new_ball 540 712 8)\<lparr>velocity := mk_vec 3 (- 4)\<rparr>, True)
   \<and> check_wall_collision (new_ball 540 360 8) = (new_ball 540 360 8, False)"
  using wall_reflection [of "(new_ball 540 8 8)\<lparr>velocity := mk_vec 3 (- 4)\<rparr>" 3 4]
        wall_reflection [of "(new_ball 540 715 8)\<lparr>velocity := mk_vec 3 4\<rparr>"]
        wall_reflection [of "new_ball 540 360 8"]
  by (simp add: new_ball_def WINDOW_HEIGHT_def)

text \<open>
  C5. \<^verbatim>\<open>check_score\<close> returns \<^verbatim>\<open>'right'\<close> when \<open>position.x - radius \<le> 0\<close>,
  \<^verbatim>\<open>'left'\<close> when that fails and \<open>position.x + radius \<ge> WINDOW_WIDTH\<close>, and
  \<^verbatim>\<open>None\<close> otherwise; the ball it returns is the ball it was given.
\<close>

theorem check_score_cases:
  "fst (check_score b) = b
   \<and> (vec_x (position b) - radius b \<le> 0 \<longrightarrow> snd (check_score b) = Some ''right'')
   \<and> (\<not> vec_x (position b) - radius b \<le> 0 \<and> vec_x (position b) + radius b \<ge> WINDOW_WIDTH
        \<longrightarrow> snd (check_score b) = Some ''left'')
   \<and> (\<not> vec_x (position b) - radius b \<le> 0 \<and> \<not> vec_x (position b) + radius b \<ge> WINDOW_WIDTH
        \<longrightarrow> snd (check_score b) = None)"
  by (simp add: check_score_def)

theorem check_score_cases_witness:
  "snd (check_score (new_ball (8 - 1 / 1000) 360 8)) = Some ''right''
   \<and> snd (check_score (new_ball (1080 - 8 + 1 / 1000) 360 8)) = Some ''left''
   \<and> snd (check_score (new_ball 540 360 8)) = None"
  using check_score_cases [of "new_ball (8 - 1 / 1000) 360 8"]
        check_score_cases [of "new_ball (1080 - 8 + 1 / 1000) 360 8"]
        check_score_cases [of "new_ball 540 360 8"]
  by (simp add: new_ball_def WINDOW_WIDTH_def)

subsection \<open>Paddle bounce\<close>

lemma magnitude_x_only: "magnitude (mk_vec a 0) = \<bar>a\<bar>"
  by (simp add: magnitude_mk_vec)

lemma magnitude_polar':
  assumes "d = 1 \<or> d = - 1"
  shows "magnitude (mk_vec (cos a * d * s) (sin a * s)) = \<bar>s\<bar>"
proof -
  have e: "cos a * d * s = cos a * s * d" by simp
  show ?thesis unfolding e by (rule magnitude_polar [OF assms])
qed

lemma bounce_speed_nonneg:
  "0 \<le> acceleration_factor b \<Longrightarrow> 0 \<le> bounce_speed b"
  by (simp add: bounce_speed_def magnitude_nonneg)

text \<open>
  C2. For a paddle of nonzero height \<^verbatim>\<open>reflect_from_paddle\<close> returns, and the new
  velocity is \<open>(cos angle * speed * d, sin angle * speed)\<close>, where \<open>angle\<close> is the
  offset of the ball from the paddle's centre, divided by half the paddle's height,
  clamped to \<open>[-1, 1]\<close> and multiplied by 60 degrees, \<open>speed\<close> is the bounce speed and
  \<open>d\<close> is \<open>1\<close> or \<open>-1\<close>, the opposite of the sign of the incoming \<open>velocity.x\<close>
  when that is not zero, so that the ball goes back to the side it came from. The
  angle is at most 60 degrees in magnitude, and so is the angle of the new velocity
  from the horizontal: \<open>\<bar>vy\<bar> \<le> sqrt 3 * \<bar>vx\<bar>\<close>, \<open>sqrt 3\<close> being the tangent of 60 degrees.
\<close>

theorem paddle_bounce_velocity:
  assumes "height p \<noteq> 0"
  shows "\<exists>b' d. reflect_from_paddle b p = Inr b'
           \<and> b' = b\<lparr>velocity := mk_vec (cos (bounce_angle b p) * bounce_speed b * d)
                                      (sin (bounce_angle b p) * bounce_speed b)\<rparr>
           \<and> (d = 1 \<or> d = - 1)
           \<and> (vec_x (velocity b) \<noteq> 0 \<longrightarrow> d = - sgn (vec_x (velocity b)))
           \<and> (0 \<le> bounce_speed b \<longrightarrow> vec_x (velocity b) * vec_x (velocity b') \<le> 0)
           \<and> \<bar>bounce_angle b p\<bar> \<le> pi / 3
           \<and> \<bar>vec_y (velocity b')\<bar> \<le> sqrt 3 * \<bar>vec_x (velocity b')\<bar>"
proof -
  let ?t = "bounce_angle b p" and ?s = "bounce_speed b"
  let ?d = "(if vec_x (velocity b) < 0 then 1 else - 1) :: real"
  let ?b' = "b\<lparr>velocity := mk_vec (cos ?t * ?s * ?d) (sin ?t * ?s)\<rparr>"
  have t: "\<bar>?t\<bar> \<le> pi / 3" by (rule bounce_angle_bound)
  have c: "1 / 2 \<le> cos ?t" and sl: "\<bar>sin ?t\<bar> \<le> sqrt 3 * cos ?t"
    using slope_60 [OF t] by simp_all
  have r: "reflect_from_paddle b p = Inr ?b'"
    by (rule reflect_from_paddle_eq [OF assms])
  have d: "?d = 1 \<or> ?d = - 1" by simp
  have sg: "vec_x (velocity b) \<noteq> 0 \<longrightarrow> ?d = - sgn (vec_x (velocity b))"
    by (simp add: sgn_if)
  have ret: "0 \<le> ?s \<longrightarrow> vec_x (velocity b) * vec_x (velocity ?b') \<le> 0"
  proof
    assume s0: "0 \<le> ?s"
    have cs: "0 \<le> cos ?t * ?s" using c s0 by simp
    show "vec_x (velocity b) * vec_x (velocity ?b') \<le> 0"
    proof (cases "vec_x (velocity b) < 0")
      case True
      then have "vec_x (velocity b) * (cos ?t * ?s) \<le> 0"
        using cs by (simp add: mult_nonpos_nonneg)
      with True show ?thesis by simp
    next
      case False
      then have "0 \<le> vec_x (velocity b) * (cos ?t * ?s)"
        using cs by simp
      with False show ?thesis by simp
    qed
  qed
  have "\<bar>sin ?t * ?s\<bar> = \<bar>sin ?t\<bar> * \<bar>?s\<bar>" by (simp add: abs_mult)
  also have "\<dots> \<le> (sqrt 3 * cos ?t) * \<bar>?s\<bar>"
    using sl by (intro mult_right_mono) simp_all
  also have "\<dots> = sqrt 3 * \<bar>cos ?t * ?s * ?d\<bar>"
    using c by (simp add: abs_mult)
  finally have slope: "\<bar>vec_y (velocity ?b')\<bar> \<le> sqrt 3 * \<bar>vec_x (velocity ?b')\<bar>"
    by simp
  from r d sg ret t slope show ?thesis by blast
qed

theorem paddle_bounce_velocity_witness:
  "height (new_paddle 50 310 15 100) \<noteq> 0
   \<and> reflect_from_paddle ((new_ball 70 360 8)\<lparr>velocity := mk_vec (- 400) 0\<rparr>)
        (new_paddle 50 310 15 100)
      = Inr ((new_ball 70 360 8)\<lparr>velocity := mk_vec 420 0\<rparr>)"
proof -
  let ?p = "new_paddle 50 310 15 100"
  let ?b = "(new_ball 70 360 8)\<lparr>velocity := mk_vec (- 400) 0\<rparr>"
  have h: "height ?p \<noteq> 0" by (simp add: new_paddle_def)
  have a: "bounce_angle ?b ?p = 0"
    by (simp add: bounce_angle_def clamp_def new_paddle_def new_ball_def)
  have s: "bounce_speed ?b = 420"
    by (simp add: bounce_speed_def new_ball_def magnitude_x_only)
  have v: "vec_x (velocity ?b) = - 400" by simp
  from paddle_bounce_velocity [OF h, of ?b] obtain b' d where
    "reflect_from_paddle ?b ?p = Inr b'"
    "b' = ?b\<lparr>velocity := mk_vec (cos (bounce_angle ?b ?p) * bounce_speed ?b * d)
                                 (sin (bounce_angle ?b ?p) * bounce_speed ?b)\<rparr>"
    "vec_x (velocity ?b) \<noteq> 0 \<longrightarrow> d = - sgn (vec_x (velocity ?b))"
    by blast
  then show ?thesis using h by (simp add: a s v)
qed

text \<open>
  C10. When the incoming \<open>velocity.x\<close> is exactly \<open>0\<close>, \<^verbatim>\<open>reflect_from_paddle\<close>
  takes direction \<open>-1\<close>: the new velocity is
  \<open>(cos angle * speed * (-1), sin angle * speed)\<close>, whose horizontal component is not
  positive (the acceleration factor being nonnegative). The direction is \<open>+1\<close> only
  for an incoming \<open>velocity.x < 0\<close>: for a bounce speed other than zero the new
  velocity is \<open>(cos angle * speed * 1, sin angle * speed)\<close> exactly when the incoming
  \<open>velocity.x\<close> is negative. The paddle has nonzero height.
\<close>

theorem zero_horizontal_velocity_goes_left:
  assumes "height p \<noteq> 0"
  shows "(vec_x (velocity b) = 0 \<longrightarrow>
            reflect_from_paddle b p
              = Inr (b\<lparr>velocity := mk_vec (cos (bounce_angle b p) * bounce_speed b * (- 1))
                                          (sin (bounce_angle b p) * bounce_speed b)\<rparr>))
         \<and> (vec_x (velocity b) = 0 \<and> 0 \<le> acceleration_factor b \<longrightarrow>
            (\<exists>b'. reflect_from_paddle b p = Inr b' \<and> vec_x (velocity b') \<le> 0))
         \<and> (bounce_speed b \<noteq> 0 \<longrightarrow>
            (reflect_from_paddle b p
               = Inr (b\<lparr>velocity := mk_vec (cos (bounce_angle b p) * bounce_speed b * 1)
                                           (sin (bounce_angle b p) * bounce_speed b)\<rparr>))
             = (vec_x (velocity b) < 0))"
proof -
  let ?t = "bounce_angle b p" and ?s = "bounce_speed b"
  have c: "1 / 2 \<le> cos ?t" using slope_60 [OF bounce_angle_bound] by simp
  note r = reflect_from_paddle_eq [OF assms, of b]
  have one: "vec_x (velocity b) = 0 \<longrightarrow>
      reflect_from_paddle b p = Inr (b\<lparr>velocity := mk_vec (cos ?t * ?s * (- 1)) (sin ?t * ?s)\<rparr>)"
    using r by simp
  have two: "vec_x (velocity b) = 0 \<and> 0 \<le> acceleration_factor b \<longrightarrow>
      (\<exists>b'. reflect_from_paddle b p = Inr b' \<and> vec_x (velocity b') \<le> 0)"
  proof
    assume a: "vec_x (velocity b) = 0 \<and> 0 \<le> acceleration_factor b"
    then have "0 \<le> ?s" by (simp add: bounce_speed_nonneg)
    then have "0 \<le> cos ?t * ?s" using c by simp
    then show "\<exists>b'. reflect_from_paddle b p = Inr b' \<and> vec_x (velocity b') \<le> 0"
      using r a by simp
  qed
  have three: "?s \<noteq> 0 \<longrightarrow>
      (reflect_from_paddle b p = Inr (b\<lparr>velocity := mk_vec (cos ?t * ?s * 1) (sin ?t * ?s)\<rparr>))
       = (vec_x (velocity b) < 0)"
  proof
    assume s: "?s \<noteq> 0"
    have cs: "cos ?t * ?s \<noteq> 0" using c s by simp
    show "(reflect_from_paddle b p = Inr (b\<lparr>velocity := mk_vec (cos ?t * ?s * 1) (sin ?t * ?s)\<rparr>))
       = (vec_x (velocity b) < 0)"
    proof (cases "vec_x (velocity b) < 0")
      case True
      then show ?thesis using r by simp
    next
      case False
      have "b\<lparr>velocity := mk_vec (- (cos ?t * ?s)) (sin ?t * ?s)\<rparr>
              \<noteq> b\<lparr>velocity := mk_vec (cos ?t * ?s) (sin ?t * ?s)\<rparr>"
      proof
        assume "b\<lparr>velocity := mk_vec (- (cos ?t * ?s)) (sin ?t * ?s)\<rparr>
              = b\<lparr>velocity := mk_vec (cos ?t * ?s) (sin ?t * ?s)\<rparr>"
        then have "velocity (b\<lparr>velocity := mk_vec (- (cos ?t * ?s)) (sin ?t * ?s)\<rparr>)
              = velocity (b\<lparr>velocity := mk_vec (cos ?t * ?s) (sin ?t * ?s)\<rparr>)"
          by (rule arg_cong)
        then show False using cs by simp
      qed
      with False show ?thesis using r by simp
    qed
  qed
  from one two three show ?thesis by blast
qed

theorem zero_horizontal_velocity_goes_left_witness:
  "height (new_paddle 50 310 15 100) \<noteq> 0
   \<and> reflect_from_paddle ((new_ball 70 360 8)\<lparr>velocity := mk_vec 0 400\<rparr>)
        (new_paddle 50 310 15 100)
      = Inr ((new_ball 70 360 8)\<lparr>velocity := mk_vec (- 420) 0\<rparr>)"
proof -
  let ?p = "new_paddle 50 310 15 100"
  let ?b = "(new_ball 70 360 8)\<lparr>velocity := mk_vec 0 400\<rparr>"
  have h: "height ?p \<noteq> 0" by (simp add: new_paddle_def)
  have a: "bounce_angle ?b ?p = 0"
    by (simp add: bounce_angle_def clamp_def new_paddle_def new_ball_def)
  have s: "bounce_speed ?b = 420"
    by (simp add: bounce_speed_def new_ball_def magnitude_mk_vec)
  from zero_horizontal_velocity_goes_left [OF h, of ?b] h show ?thesis
    by (simp add: a s)
qed

subsection \<open>Reset\<close>

text \<open>
  The serve in exact arithmetic, with real numbers in place of doubles and the
  mathematical cosine and sine. For a drawn angle in \<open>[-pi/4, pi/4]\<close> and a drawn
  direction in \<open>{-1, 1}\<close>, \<^verbatim>\<open>reset(x, y)\<close> sets the position to \<open>(x, y)\<close> and the
  velocity to \<open>(cos angle * direction * base_speed, sin angle * base_speed)\<close>, of
  magnitude \<open>base_speed\<close> and with \<open>\<bar>vy\<bar> \<le> \<bar>vx\<bar>\<close>. The source computes in doubles,
  where the magnitude equals \<open>base_speed\<close> only up to rounding: this lemma describes
  the idealised arithmetic and not the values the program computes.
\<close>

lemma reset_serve:
  assumes "- (pi / 4) \<le> angle" and "angle \<le> pi / 4"
    and "direction = 1 \<or> direction = - 1" and "0 \<le> base_speed b"
  shows "position (reset_ball b a c angle direction) = mk_vec a c
         \<and> velocity (reset_ball b a c angle direction)
             = mk_vec (cos angle * direction * base_speed b) (sin angle * base_speed b)
         \<and> magnitude (velocity (reset_ball b a c angle direction)) = base_speed b
         \<and> \<bar>vec_y (velocity (reset_ball b a c angle direction))\<bar>
             \<le> \<bar>vec_x (velocity (reset_ball b a c angle direction))\<bar>
         \<and> base_speed (reset_ball b a c angle direction) = base_speed b"
proof -
  have t: "\<bar>angle\<bar> \<le> pi / 4" using assms(1,2) by (simp add: abs_le_iff)
  have sl: "\<bar>sin angle\<bar> \<le> cos angle" by (rule slope_45 [OF t])
  then have c0: "0 \<le> cos angle" by linarith
  have m: "magnitude (mk_vec (cos angle * direction * base_speed b) (sin angle * base_speed b))
             = base_speed b"
    using magnitude_polar' [OF assms(3), of angle "base_speed b"] assms(4) by simp
  have "\<bar>sin angle * base_speed b\<bar> = \<bar>sin angle\<bar> * base_speed b"
    using assms(4) by (simp add: abs_mult)
  also have "\<dots> \<le> cos angle * base_speed b"
    using sl assms(4) by (intro mult_right_mono)
  also have "\<dots> = \<bar>cos angle * direction * base_speed b\<bar>"
    using assms(3,4) c0 by (auto simp: abs_mult)
  finally have slope: "\<bar>sin angle * base_speed b\<bar> \<le> \<bar>cos angle * direction * base_speed b\<bar>" .
  show ?thesis using m slope by (simp add: reset_ball_def)
qed

lemma reset_serve_example:
  "- (pi / 4) \<le> (0::real) \<and> (0::real) \<le> pi / 4 \<and> 0 \<le> base_speed (new_ball 0 0 8)
   \<and> velocity (reset_ball ((new_ball 0 0 8)\<lparr>velocity := mk_vec 1000 0\<rparr>) 540 360 0 1) = mk_vec 400 0
   \<and> magnitude (velocity (reset_ball ((new_ball 0 0 8)\<lparr>velocity := mk_vec 1000 0\<rparr>) 540 360 0 1)) = 400"
proof -
  let ?b = "(new_ball 0 0 8)\<lparr>velocity := mk_vec 1000 0\<rparr>"
  have h1: "- (pi / 4) \<le> (0::real)" and h2: "(0::real) \<le> pi / 4" by simp_all
  have h3: "(1::real) = 1 \<or> (1::real) = - 1" by simp
  have h4: "0 \<le> base_speed ?b" by (simp add: new_ball_def)
  from reset_serve [OF h1 h2 h3 h4, of 540 360] h1 h2 h4 show ?thesis
    by (simp add: new_ball_def reset_ball_def magnitude_x_only)
qed

subsection \<open>Paddle collision detection\<close>

lemma clamp_nearest:
  "lo \<le> hi \<Longrightarrow> lo \<le> q \<Longrightarrow> q \<le> hi \<Longrightarrow> (v - clamp v lo hi)\<^sup>2 \<le> (v - q)\<^sup>2"
proof -
  assume "lo \<le> hi" "lo \<le> q" "q \<le> hi"
  then have "\<bar>v - clamp v lo hi\<bar> \<le> \<bar>v - q\<bar>" by (auto simp: clamp_def)
  then show ?thesis by (simp only: abs_le_square_iff)
qed

lemma closest_point_in_rect:
  "0 \<le> width p \<Longrightarrow> 0 \<le> height p \<Longrightarrow> in_rect (closest_point b p) p"
  using clamp_bounds [of "vec_x (paddle_position p)" "vec_x (paddle_position p) + width p"]
        clamp_bounds [of "vec_y (paddle_position p)" "vec_y (paddle_position p) + height p"]
  by (simp add: in_rect_def closest_point_def)

lemma closest_point_nearest:
  assumes "0 \<le> width p" "0 \<le> height p" "in_rect q p"
  shows "paddle_distance b p \<le> magnitude (vsub (position b) q)"
proof -
  have x: "(vec_x (position b) - vec_x (closest_point b p))\<^sup>2 \<le> (vec_x (position b) - vec_x q)\<^sup>2"
    using assms by (simp add: closest_point_def in_rect_def clamp_nearest)
  have y: "(vec_y (position b) - vec_y (closest_point b p))\<^sup>2 \<le> (vec_y (position b) - vec_y q)\<^sup>2"
    using assms by (simp add: closest_point_def in_rect_def clamp_nearest)
  from x y show ?thesis
    by (simp add: paddle_distance_def magnitude_def vsub_def add_mono)
qed

lemma source_distance:
  assumes "0 \<le> width p" "0 \<le> height p"
  shows "magnitude (vsub (position b)
           (mk_vec (max (vec_x (paddle_position p))
                        (min (vec_x (position b)) (vec_x (paddle_position p) + width p)))
                   (max (vec_y (paddle_position p))
                        (min (vec_y (position b)) (vec_y (paddle_position p) + height p)))))
         = paddle_distance b p"
  using assms by (simp add: paddle_distance_def closest_point_def clamp_max_min)

text \<open>What a paddle check returns on a hit: the bounced ball, pushed by the overlap.\<close>

lemma check_paddle_collision_eq:
  assumes "0 \<le> width p" "0 < height p"
  shows "check_paddle_collision b p =
    (if paddle_distance b p \<le> radius b then
       Inr (let b1 = b\<lparr>velocity := mk_vec (cos (bounce_angle b p) * bounce_speed b
                                         * (if vec_x (velocity b) < 0 then 1 else - 1))
                                      (sin (bounce_angle b p) * bounce_speed b)\<rparr>;
                overlap = radius b - paddle_distance b p
            in if overlap > 0
               then b1\<lparr>position := mk_vec (vec_x (position b)
                                             + (if vec_x (velocity b1) > 0 then 1 else - 1) * overlap)
                                            (vec_y (position b))\<rparr>
               else b1, True)
     else Inr (b, False))"
proof -
  have h: "height p \<noteq> 0" using assms by simp
  have w: "0 \<le> height p" using assms by simp
  show ?thesis
    unfolding check_paddle_collision_def Let_def source_distance [OF assms(1) w]
      reflect_from_paddle_eq [OF h]
    by (simp add: vec_x_update_mk)
qed

lemma check_paddle_collision_total:
  assumes "0 \<le> width p" "0 < height p"
  shows "\<exists>b'. check_paddle_collision b p = Inr (b', paddle_distance b p \<le> radius b)
              \<and> (\<not> paddle_distance b p \<le> radius b \<longrightarrow> b' = b)"
  unfolding check_paddle_collision_eq [OF assms] by simp

text \<open>
  Paddle collision detection in exact arithmetic, with real numbers in place of
  doubles. For a paddle whose rectangle has nonnegative width and positive height: the
  point obtained by clamping the ball's \<open>x\<close> and \<open>y\<close> independently into the
  rectangle's ranges lies in the rectangle and no point of the rectangle is nearer to
  the ball's centre; \<^verbatim>\<open>check_paddle_collision\<close> returns \<^verbatim>\<open>True\<close> when the
  distance from that point to the centre is at most the radius, and otherwise returns
  \<^verbatim>\<open>False\<close> and leaves the ball as it was. The source computes the distance in
  doubles (\<^verbatim>\<open>**\<close>, \<^verbatim>\<open>+\<close> and \<^verbatim>\<open>math.sqrt\<close> round), so at the threshold this
  lemma describes the idealised arithmetic and not the values the program computes.
\<close>

lemma paddle_collision_closest_point:
  assumes "0 \<le> width p" and "0 < height p"
  shows "in_rect (closest_point b p) p
         \<and> (\<forall>q. in_rect q p \<longrightarrow> paddle_distance b p \<le> magnitude (vsub (position b) q))
         \<and> (paddle_distance b p \<le> radius b \<longrightarrow>
              (\<exists>b'. check_paddle_collision b p = Inr (b', True)))
         \<and> (\<not> paddle_distance b p \<le> radius b \<longrightarrow> check_paddle_collision b p = Inr (b, False))
         \<and> (0 < dx \<and> 0 < dy
              \<and> position b = mk_vec (vec_x (paddle_position p) + width p + dx)
                                    (vec_y (paddle_position p) + height p + dy) \<longrightarrow>
              closest_point b p = mk_vec (vec_x (paddle_position p) + width p)
                                         (vec_y (paddle_position p) + height p)
              \<and> paddle_distance b p = sqrt (dx\<^sup>2 + dy\<^sup>2)
              \<and> (sqrt (dx\<^sup>2 + dy\<^sup>2) = radius b \<longrightarrow>
                    (\<exists>b'. check_paddle_collision b p = Inr (b', True)))
              \<and> (0 < eps \<and> sqrt (dx\<^sup>2 + dy\<^sup>2) = radius b + eps \<longrightarrow>
                    check_paddle_collision b p = Inr (b, False)))"
proof -
  have h0: "0 \<le> height p" using assms by simp
  have 1: "in_rect (closest_point b p) p"
    by (rule closest_point_in_rect [OF assms(1) h0])
  have 2: "\<forall>q. in_rect q p \<longrightarrow> paddle_distance b p \<le> magnitude (vsub (position b) q)"
    using closest_point_nearest [OF assms(1) h0] by blast
  obtain b' where r: "check_paddle_collision b p = Inr (b', paddle_distance b p \<le> radius b)"
    and same: "\<not> paddle_distance b p \<le> radius b \<longrightarrow> b' = b"
    using check_paddle_collision_total [OF assms] by blast
  have 3: "paddle_distance b p \<le> radius b \<longrightarrow> (\<exists>b'. check_paddle_collision b p = Inr (b', True))"
    using r by auto
  have 4: "\<not> paddle_distance b p \<le> radius b \<longrightarrow> check_paddle_collision b p = Inr (b, False)"
    using r same by auto
  have 5: "closest_point b p = mk_vec (vec_x (paddle_position p) + width p)
                                      (vec_y (paddle_position p) + height p)
           \<and> paddle_distance b p = sqrt (dx\<^sup>2 + dy\<^sup>2)"
    if "0 < dx" "0 < dy" "position b = mk_vec (vec_x (paddle_position p) + width p + dx)
                                             (vec_y (paddle_position p) + height p + dy)"
    using that assms by (simp add: paddle_distance_def closest_point_def clamp_def
        magnitude_mk_vec vsub_def)
  show ?thesis using 1 2 3 4 5 by simp
qed

lemma paddle_collision_closest_point_example:
  "0 \<le> width (new_paddle 50 310 15 100) \<and> 0 < height (new_paddle 50 310 15 100)
   \<and> paddle_distance (new_ball 68 414 5) (new_paddle 50 310 15 100) = 5
   \<and> in_rect (mk_vec 50 310) (new_paddle 50 310 15 100)
   \<and> 5 \<le> magnitude (vsub (position (new_ball 68 414 5)) (mk_vec 50 310))
   \<and> (\<exists>b'. check_paddle_collision (new_ball 68 414 5) (new_paddle 50 310 15 100) = Inr (b', True))
   \<and> paddle_distance (new_ball 71 418 5) (new_paddle 50 310 15 100) = 5 + 5
   \<and> check_paddle_collision (new_ball 71 418 5) (new_paddle 50 310 15 100)
       = Inr (new_ball 71 418 5, False)"
proof -
  let ?p = "new_paddle 50 310 15 100"
  have w: "0 \<le> width ?p" and h: "0 < height ?p" by (simp_all add: new_paddle_def)
  have s1: "sqrt (3\<^sup>2 + 4\<^sup>2) = (5::real)" by (simp add: real_sqrt_unique)
  have s2: "sqrt (6\<^sup>2 + 8\<^sup>2) = (5::real) + 5" by (simp add: real_sqrt_unique)
  have p1: "position (new_ball 68 414 5)
             = mk_vec (vec_x (paddle_position ?p) + width ?p + 3)
                      (vec_y (paddle_position ?p) + height ?p + 4)"
    by (simp add: new_ball_def new_paddle_def)
  have p2: "position (new_ball 71 418 5)
             = mk_vec (vec_x (paddle_position ?p) + width ?p + 6)
                      (vec_y (paddle_position ?p) + height ?p + 8)"
    by (simp add: new_ball_def new_paddle_def)
  have r: "radius (new_ball 68 414 5) = 5" "radius (new_ball 71 418 5) = 5"
    by (simp_all add: new_ball_def)
  have q: "in_rect (mk_vec 50 310) ?p" by (simp add: in_rect_def new_paddle_def)
  note first = paddle_collision_closest_point [OF w h, of "new_ball 68 414 5" 3 4 5]
  from first q have near: "paddle_distance (new_ball 68 414 5) ?p
      \<le> magnitude (vsub (position (new_ball 68 414 5)) (mk_vec 50 310))"
    by blast
  from first paddle_collision_closest_point [OF w h, of "new_ball 71 418 5" 6 8 5]
       w h s1 s2 p1 p2 r q near
  show ?thesis by simp
qed

subsection \<open>Speed across paddle hits\<close>

lemma magnitude_flip_y: "magnitude (mk_vec a (- c)) = magnitude (mk_vec a c)"
  by (simp add: magnitude_mk_vec)

lemma update_ball_keeps:
  "velocity (update_ball b dt sm) = velocity b"
  "acceleration_enabled (update_ball b dt sm) = acceleration_enabled b"
  "acceleration_factor (update_ball b dt sm) = acceleration_factor b"
  by (simp_all add: update_ball_def)

lemma check_wall_collision_keeps:
  "magnitude (velocity (fst (check_wall_collision b))) = magnitude (velocity b)"
  "acceleration_enabled (fst (check_wall_collision b)) = acceleration_enabled b"
  "acceleration_factor (fst (check_wall_collision b)) = acceleration_factor b"
  by (simp_all add: check_wall_collision_def reflect_wall_top reflect_wall_bottom Let_def
      magnitude_flip_y magnitude_def)

lemma reflect_from_paddle_speed:
  assumes "height p \<noteq> 0"
  shows "\<exists>b'. reflect_from_paddle b p = Inr b'
              \<and> magnitude (velocity b') = \<bar>bounce_speed b\<bar>
              \<and> position b' = position b \<and> radius b' = radius b
              \<and> acceleration_enabled b' = acceleration_enabled b
              \<and> acceleration_factor b' = acceleration_factor b"
proof -
  have d: "(if vec_x (velocity b) < 0 then 1 else - 1) = (1::real)
           \<or> (if vec_x (velocity b) < 0 then 1 else - 1) = (- 1::real)" by simp
  show ?thesis
    unfolding reflect_from_paddle_eq [OF assms]
    using magnitude_polar [OF d, of "bounce_angle b p" "bounce_speed b"] by simp
qed

lemma check_paddle_collision_speed:
  assumes "height p \<noteq> 0"
  shows "\<exists>b' hit. check_paddle_collision b p = Inr (b', hit)
              \<and> magnitude (velocity b') = (if hit then \<bar>bounce_speed b\<bar> else magnitude (velocity b))
              \<and> acceleration_enabled b' = acceleration_enabled b
              \<and> acceleration_factor b' = acceleration_factor b"
proof -
  obtain b1 where r: "reflect_from_paddle b p = Inr b1"
    and m: "magnitude (velocity b1) = \<bar>bounce_speed b\<bar>"
    and k: "acceleration_enabled b1 = acceleration_enabled b"
           "acceleration_factor b1 = acceleration_factor b"
    using reflect_from_paddle_speed [OF assms, of b] by blast
  show ?thesis
  proof (cases "check_paddle_collision b p = Inr (b, False)")
    case True
    then have "check_paddle_collision b p = Inr (b, False)
               \<and> magnitude (velocity b)
                   = (if False then \<bar>bounce_speed b\<bar> else magnitude (velocity b))
               \<and> acceleration_enabled b = acceleration_enabled b
               \<and> acceleration_factor b = acceleration_factor b" by simp
    then show ?thesis by blast
  next
    case False
    then obtain b' where "check_paddle_collision b p = Inr (b', True)"
      and "velocity b' = velocity b1"
      and "acceleration_enabled b' = acceleration_enabled b1"
      and "acceleration_factor b' = acceleration_factor b1"
      by (auto simp: check_paddle_collision_def Let_def r split: if_splits)
    then have "check_paddle_collision b p = Inr (b', True)
               \<and> magnitude (velocity b')
                   = (if True then \<bar>bounce_speed b\<bar> else magnitude (velocity b))
               \<and> acceleration_enabled b' = acceleration_enabled b
               \<and> acceleration_factor b' = acceleration_factor b" using m k by simp
    then show ?thesis by blast
  qed
qed

lemma abs_bounce_speed:
  "\<bar>bounce_speed b\<bar> = (if acceleration_enabled b
                           then magnitude (velocity b) * \<bar>acceleration_factor b\<bar>
                           else magnitude (velocity b))"
  by (simp add: bounce_speed_def abs_mult magnitude_nonneg)

lemma play_speed:
  "paddle_heights_nonzero cs \<Longrightarrow>
   \<exists>b' n. play b cs = Inr (b', n)
     \<and> acceleration_enabled b' = acceleration_enabled b
     \<and> acceleration_factor b' = acceleration_factor b
     \<and> magnitude (velocity b')
         = (if acceleration_enabled b
            then magnitude (velocity b) * \<bar>acceleration_factor b\<bar> ^ n
            else magnitude (velocity b))"
proof (induction cs arbitrary: b)
  case Nil
  then show ?case by simp
next
  case (Cons c cs)
  show ?case
  proof (cases c)
    case (Advance dt sm)
    from Cons.prems Advance have "paddle_heights_nonzero cs" by simp
    from Cons.IH [OF this, of "update_ball b dt sm"]
    obtain b2 n where "play (update_ball b dt sm) cs = Inr (b2, n)"
      and "acceleration_enabled b2 = acceleration_enabled b"
      and "acceleration_factor b2 = acceleration_factor b"
      and "magnitude (velocity b2)
         = (if acceleration_enabled b
            then magnitude (velocity b) * \<bar>acceleration_factor b\<bar> ^ n
            else magnitude (velocity b))"
      unfolding update_ball_keeps by blast
    then show ?thesis using Advance by simp
  next
    case WallCheck
    from Cons.prems WallCheck have "paddle_heights_nonzero cs" by simp
    from Cons.IH [OF this, of "fst (check_wall_collision b)"]
    obtain b2 n where "play (fst (check_wall_collision b)) cs = Inr (b2, n)"
      and "acceleration_enabled b2 = acceleration_enabled b"
      and "acceleration_factor b2 = acceleration_factor b"
      and "magnitude (velocity b2)
         = (if acceleration_enabled b
            then magnitude (velocity b) * \<bar>acceleration_factor b\<bar> ^ n
            else magnitude (velocity b))"
      unfolding check_wall_collision_keeps by blast
    then show ?thesis using WallCheck by simp
  next
    case (PaddleCheck p)
    from Cons.prems PaddleCheck have h: "height p \<noteq> 0" and rest: "paddle_heights_nonzero cs"
      by simp_all
    obtain b1 hit where c1: "check_paddle_collision b p = Inr (b1, hit)"
      and m1: "magnitude (velocity b1) = (if hit then \<bar>bounce_speed b\<bar> else magnitude (velocity b))"
      and k1: "acceleration_enabled b1 = acceleration_enabled b"
              "acceleration_factor b1 = acceleration_factor b"
      using check_paddle_collision_speed [OF h, of b] by blast
    obtain b2 n where c2: "play b1 cs = Inr (b2, n)"
      and k2: "acceleration_enabled b2 = acceleration_enabled b1"
              "acceleration_factor b2 = acceleration_factor b1"
      and m2: "magnitude (velocity b2)
         = (if acceleration_enabled b1
            then magnitude (velocity b1) * \<bar>acceleration_factor b1\<bar> ^ n
            else magnitude (velocity b1))"
      using Cons.IH [OF rest, of b1] by blast
    have "play b (c # cs) = Inr (b2, if hit then Suc n else n)"
      using PaddleCheck c1 c2 by simp
    moreover have "magnitude (velocity b2)
         = (if acceleration_enabled b
            then magnitude (velocity b) * \<bar>acceleration_factor b\<bar> ^ (if hit then Suc n else n)
            else magnitude (velocity b))"
      using m1 m2 k1 by (simp add: abs_bounce_speed)
    ultimately show ?thesis using k1 k2 by simp
  qed
qed

text \<open>
  Speed across paddle hits in exact arithmetic, with real numbers in place of doubles
  and the mathematical cosine and sine. For a ball with a nonnegative acceleration
  factor, a paddle bounce multiplies the speed by the factor when acceleration is
  enabled and keeps it when it is disabled, and over a sequence of calls the speed is
  the initial speed times the factor to the power of the number of paddle hits. The
  source computes in doubles, where these equalities hold only up to rounding: this
  lemma describes the idealised arithmetic and not the values the program computes.
\<close>

lemma acceleration_compounds:
  assumes "0 \<le> acceleration_factor b"
  shows "(height p \<noteq> 0 \<longrightarrow>
            (\<exists>b'. reflect_from_paddle b p = Inr b'
               \<and> magnitude (velocity b')
                   = (if acceleration_enabled b
                      then magnitude (velocity b) * acceleration_factor b
                      else magnitude (velocity b))))
         \<and> (paddle_heights_nonzero cs \<longrightarrow>
            (\<exists>b' n. play b cs = Inr (b', n)
               \<and> magnitude (velocity b')
                   = (if acceleration_enabled b
                      then magnitude (velocity b) * acceleration_factor b ^ n
                      else magnitude (velocity b))))"
proof -
  have a: "\<bar>acceleration_factor b\<bar> = acceleration_factor b" using assms by simp
  have one: "\<exists>b'. reflect_from_paddle b p = Inr b'
               \<and> magnitude (velocity b')
                   = (if acceleration_enabled b
                      then magnitude (velocity b) * acceleration_factor b
                      else magnitude (velocity b))" if "height p \<noteq> 0"
    using reflect_from_paddle_speed [OF that, of b] by (auto simp: abs_bounce_speed a)
  have two: "\<exists>b' n. play b cs = Inr (b', n)
               \<and> magnitude (velocity b')
                   = (if acceleration_enabled b
                      then magnitude (velocity b) * acceleration_factor b ^ n
                      else magnitude (velocity b))" if "paddle_heights_nonzero cs"
    using play_speed [OF that, of b] by (auto simp: a)
  from one two show ?thesis by blast
qed

lemma play_two_hits:
  "play ((new_ball 70 360 8)\<lparr>velocity := mk_vec (- 400) 0\<rparr>)
        [PaddleCheck (new_paddle 50 310 15 100), Advance 1 1, WallCheck,
         PaddleCheck (new_paddle 1015 310 15 100), PaddleCheck (new_paddle 493 310 15 100)]
     = Inr ((new_ball 485 360 8)\<lparr>velocity := mk_vec (- 441) 0\<rparr>, 2)"
  by (simp add: check_paddle_collision_def reflect_from_paddle_def update_ball_def
      check_wall_collision_def new_ball_def new_paddle_def Let_def vsub_def vadd_def vmul_def
      magnitude_x_only MAX_BOUNCE_ANGLE_def WINDOW_HEIGHT_def vec_x_update_mk)

lemma acceleration_compounds_example:
  "0 \<le> acceleration_factor ((new_ball 70 360 8)\<lparr>velocity := mk_vec (- 400) 0\<rparr>)
   \<and> paddle_heights_nonzero
        [PaddleCheck (new_paddle 50 310 15 100), Advance 1 1, WallCheck,
         PaddleCheck (new_paddle 1015 310 15 100), PaddleCheck (new_paddle 493 310 15 100)]
   \<and> play ((new_ball 70 360 8)\<lparr>velocity := mk_vec (- 400) 0\<rparr>)
        [PaddleCheck (new_paddle 50 310 15 100), Advance 1 1, WallCheck,
         PaddleCheck (new_paddle 1015 310 15 100), PaddleCheck (new_paddle 493 310 15 100)]
      = Inr ((new_ball 485 360 8)\<lparr>velocity := mk_vec (- 441) 0\<rparr>, 2)
   \<and> magnitude (velocity ((new_ball 485 360 8)\<lparr>velocity := mk_vec (- 441) 0\<rparr>))
      = 400 * (105 / 100) ^ 2
   \<and> height (new_paddle 50 310 15 100) \<noteq> 0
   \<and> (\<exists>b'. reflect_from_paddle ((new_ball 70 360 8)\<lparr>velocity := mk_vec (- 400) 0\<rparr>)
                (new_paddle 50 310 15 100) = Inr b'
             \<and> magnitude (velocity b') = 400 * (105 / 100))"
proof -
  let ?b = "(new_ball 70 360 8)\<lparr>velocity := mk_vec (- 400) 0\<rparr>"
  let ?cs = "[PaddleCheck (new_paddle 50 310 15 100), Advance 1 1, WallCheck,
         PaddleCheck (new_paddle 1015 310 15 100), PaddleCheck (new_paddle 493 310 15 100)]"
  have f: "0 \<le> acceleration_factor ?b" by (simp add: new_ball_def)
  have hs: "paddle_heights_nonzero ?cs" by (simp add: new_paddle_def)
  have e: "acceleration_enabled ?b" "acceleration_factor ?b = 105 / 100"
    "magnitude (velocity ?b) = 400"
    by (simp_all add: new_ball_def magnitude_x_only)
  have hp: "height (new_paddle 50 310 15 100) \<noteq> 0" by (simp add: new_paddle_def)
  note inst = acceleration_compounds [OF f, of "new_paddle 50 310 15 100" ?cs]
  from inst hp have one: "\<exists>b'. reflect_from_paddle ?b (new_paddle 50 310 15 100) = Inr b'
             \<and> magnitude (velocity b') = 400 * (105 / 100)"
    using e by simp
  from inst hs
  obtain b' n where "play ?b ?cs = Inr (b', n)"
    and "magnitude (velocity b') = magnitude (velocity ?b) * acceleration_factor ?b ^ n"
    using e(1) by auto
  then have "play ?b ?cs = Inr ((new_ball 485 360 8)\<lparr>velocity := mk_vec (- 441) 0\<rparr>, 2)
    \<and> magnitude (velocity ((new_ball 485 360 8)\<lparr>velocity := mk_vec (- 441) 0\<rparr>))
      = 400 * (105 / 100) ^ 2"
    using e play_two_hits by simp
  with f hs hp one show ?thesis by blast
qed

subsection \<open>Order of the collision checks\<close>







lemmas eval_defs =
  check_paddle_collision_def reflect_from_paddle_def update_ball_def
  check_wall_collision_def check_score_def new_ball_def new_paddle_def Let_def vsub_def
  vadd_def vmul_def magnitude_x_only MAX_BOUNCE_ANGLE_def WINDOW_HEIGHT_def WINDOW_WIDTH_def
  vec_x_update_mk





text \<open>With the two paddles exchanged the same ball ends elsewhere: the order matters.\<close>

lemma crowded_paddles_exchanged:
  "update_game (crowded_game\<lparr>left_paddle := new_paddle 20 310 15 100,
                              right_paddle := new_paddle 0 310 15 100\<rparr>) 0 0 1
     = Inr (crowded_game\<lparr>left_paddle := new_paddle 20 310 15 100,
                          right_paddle := new_paddle 0 310 15 100,
                          ball := (new_ball 20 360 8)\<lparr>velocity := mk_vec 441 0\<rparr>\<rparr>)"
  by (simp add: update_game_def crowded_game_def eval_defs)


end
